theory Spec2Isabelle
  imports Main
begin

section \<open>Strings as the Go code uses them\<close>

text \<open>
  Go strings are byte sequences; every setting name declared in \<^verbatim>\<open>cmd/root.go\<close> is ASCII.
  \<open>strings.ToUpper\<close> and \<open>strings.ToLower\<close> are modelled on ASCII letters, by the table of
  the 26 letters (every other byte is left alone), which is what Go does on ASCII input.
\<close>

definition lower_letters :: string where
  "lower_letters = ''abcdefghijklmnopqrstuvwxyz''"

definition upper_letters :: string where
  "upper_letters = ''ABCDEFGHIJKLMNOPQRSTUVWXYZ''"

definition to_upper :: "char \<Rightarrow> char" where
  "to_upper c = (case map_of (zip lower_letters upper_letters) c of Some u \<Rightarrow> u | None \<Rightarrow> c)"

definition to_lower :: "char \<Rightarrow> char" where
  "to_lower c = (case map_of (zip upper_letters lower_letters) c of Some l \<Rightarrow> l | None \<Rightarrow> c)"

definition ToUpper :: "string \<Rightarrow> string" where
  "ToUpper s = map to_upper s"

definition ToLower :: "string \<Rightarrow> string" where
  "ToLower s = map to_lower s"

text \<open>
  The strings on which this model of \<open>ToUpper\<close> and \<open>ToLower\<close> is exact: every byte is ASCII
  (its top bit is clear).
\<close>

definition is_ascii :: "string \<Rightarrow> bool" where
  "is_ascii s = list_all (\<lambda>c. \<not> digit7 c) s"

text \<open>
  \<open>strings.NewReplacer(old, new)\<close> with one pair of one-byte strings, the only replacer the
  source builds (\<open>strings.NewReplacer("-", "_")\<close>, root.go line 117): \<open>Replace\<close> rewrites every
  occurrence of the byte.
\<close>

type_synonym replacer = "char \<times> char"

definition Replace :: "replacer \<Rightarrow> string \<Rightarrow> string" where
  "Replace rp s = map (\<lambda>c. if c = fst rp then snd rp else c) s"

text \<open>
  \<open>filepath.Ext\<close>: the suffix of the last path element that starts at its last dot, or
  the empty string when that element has no dot.
\<close>

definition Ext :: "string \<Rightarrow> string" where
  "Ext p =
     (let r = rev p;
          pre = takeWhile (\<lambda>c. c \<noteq> CHR ''/'' \<and> c \<noteq> CHR ''.'') r
      in if length pre < length r \<and> r ! length pre = CHR ''.''
         then CHR ''.'' # rev pre else [])"

section \<open>Errors\<close>

text \<open>
  Go \<open>error\<close> values. \<open>ErrServerClosed\<close> is the sentinel \<open>http.ErrServerClosed\<close> that the
  source compares against; the next four are the errors \<open>viper.ReadInConfig\<close> returns;
  \<open>UnknownFlag\<close> is the flag parser's; \<open>Err msg\<close> is any other error value (from the
  application service or from the listener).
\<close>

datatype error =
    ErrServerClosed
  | ConfigFileNotFoundError string "string list"
  | UnsupportedConfigError string
  | ReadFileError string
  | ConfigParseError string
  | UnknownFlag string
  | Err string

section \<open>Command-line flags (cobra / pflag)\<close>

text \<open>
  A flag of \<^verbatim>\<open>github.com/spf13/pflag\<close>, as far as the program reads it: its name, its
  declared default, its current value, and whether the command line set it.
\<close>

record flag =
  flag_Name :: string
  flag_DefValue :: string
  flag_Value :: string
  flag_Changed :: bool

text \<open>A flag as \<open>String\<close>/\<open>StringP\<close>/\<open>StringVar\<close> declares it: at its default, not changed.\<close>

definition new_flag :: "string \<Rightarrow> string \<Rightarrow> flag" where
  "new_flag n d = \<lparr>flag_Name = n, flag_DefValue = d, flag_Value = d, flag_Changed = False\<rparr>"

text \<open>\<open>init\<close>, root.go lines 92-102: the persistent flag and the ten local flags.\<close>

definition PersistentFlags :: "flag list" where
  "PersistentFlags = [new_flag ''config'' ''/etc/lite-idp/lite-idp.yaml'']"

definition LocalFlags :: "flag list" where
  "LocalFlags =
     [new_flag ''tls-certificate'' ''/etc/lite-idp/cert.pem'',
      new_flag ''tls-private-key'' ''/etc/lite-idp/key.pem'',
      new_flag ''tls-ca'' '''',
      new_flag ''listen-address'' ''127.0.0.1:9443'',
      new_flag ''server-name'' ''idp.example.com:9443'',
      new_flag ''entity-id'' '''',
      new_flag ''metadata-path'' ''/metadata'',
      new_flag ''sso-service-path'' ''/SAML2/Redirect/SSO'',
      new_flag ''artifact-service-path'' ''/SAML2/SOAP/ArtifactResolution'',
      new_flag ''attribute-service-path'' ''/SAML2/SOAP/AttributeQuery'']"

text \<open>
  \<open>RootCmd.Flags()\<close> as \<open>initConfig\<close> sees it: cobra merges the persistent flags into the
  command's flag set when it parses the command line, which happens before the
  initializers run. (The \<open>--help\<close> flag that cobra adds by itself is not a setting and is
  left out.)
\<close>

definition DeclaredFlags :: "flag list" where
  "DeclaredFlags = LocalFlags @ PersistentFlags"

text \<open>
  Setting one flag from the command line (\<open>FlagSet.Set\<close>): the value is stored and the flag
  is marked changed; a name that was never declared is an error.
\<close>

definition FlagSet_Set :: "flag list \<Rightarrow> string \<Rightarrow> string \<Rightarrow> error + flag list" where
  "FlagSet_Set fs n v =
     (if n \<in> flag_Name ` set fs
      then Inr (map (\<lambda>f. if flag_Name f = n
                           then f\<lparr>flag_Value := v, flag_Changed := True\<rparr> else f) fs)
      else Inl (UnknownFlag n))"

text \<open>
  The command line, after shorthands are expanded, is a list of (flag name, value) pairs,
  applied left to right; the first unknown flag stops the parse.
\<close>

fun ParseFlags :: "flag list \<Rightarrow> (string \<times> string) list \<Rightarrow> error + flag list" where
  "ParseFlags fs [] = Inr fs"
| "ParseFlags fs ((n, v) # rest) =
     (case FlagSet_Set fs n v of
        Inl e \<Rightarrow> Inl e
      | Inr fs' \<Rightarrow> ParseFlags fs' rest)"

fun Lookup :: "flag list \<Rightarrow> string \<Rightarrow> flag option" where
  "Lookup [] n = None"
| "Lookup (f # fs) n = (if flag_Name f = n then Some f else Lookup fs n)"

text \<open>
  \<open>cfgFile\<close> (root.go line 32) is the variable \<open>StringVar\<close> binds to \<open>--config\<close>: it holds that
  flag's value, the default included.
\<close>

definition cfgFile_of :: "flag list \<Rightarrow> string" where
  "cfgFile_of fs = (case Lookup fs ''config'' of Some f \<Rightarrow> flag_Value f | None \<Rightarrow> [])"

section \<open>The process environment and the file system\<close>

text \<open>\<open>os.Getenv\<close>: the value of a variable, the empty string when it is not set.\<close>

type_synonym environ = "string \<Rightarrow> string"

text \<open>
  What reading and parsing a configuration file at a path gives: no such file, a file
  that cannot be read, a file that does not parse, or its settings (keys lower-cased, as
  viper stores them).
\<close>

datatype config_file =
    NoFile
  | Unreadable
  | Malformed string
  | Content "string \<rightharpoonup> string"

type_synonym filesystem = "string \<Rightarrow> config_file"

section \<open>The configuration library (viper)\<close>

text \<open>
  The functions of this section are those of the library \<^verbatim>\<open>github.com/spf13/viper\<close> that
  \<^verbatim>\<open>cmd/root.go\<close> calls. The library is not among the repository's sources; each function
  is modelled after its documented behaviour, on the state described next.
\<close>

text \<open>
  The part of viper's state that \<open>initConfig\<close> and \<open>viper.GetString\<close> touch. The source never
  calls \<open>Set\<close>, \<open>SetDefault\<close>, \<open>BindEnv\<close>, \<open>SetEnvPrefix\<close> or a remote provider, so the override,
  default, bound-environment and key/value tables stay empty and are left out.
\<close>

record viper =
  configFile :: string
  configName :: string
  configPaths :: "string list"
  automaticEnvApplied :: bool
  envKeyReplacer :: "replacer option"
  pflags :: "string \<rightharpoonup> flag"
  config :: "string \<rightharpoonup> string"

definition viper_New :: viper where
  "viper_New = \<lparr>configFile = [], configName = ''config'', configPaths = [],
     automaticEnvApplied = False, envKeyReplacer = None,
     pflags = Map.empty, config = Map.empty\<rparr>"

definition SupportedExts :: "string list" where
  "SupportedExts = [''json'', ''toml'', ''yaml'', ''yml'', ''properties'', ''props'', ''prop'', ''hcl'']"

definition SetConfigFile :: "string \<Rightarrow> viper \<Rightarrow> viper" where
  "SetConfigFile p v = (if p \<noteq> [] then v\<lparr>configFile := p\<rparr> else v)"

definition AddConfigPath :: "string \<Rightarrow> viper \<Rightarrow> viper" where
  "AddConfigPath p v =
     (if p \<noteq> [] \<and> p \<notin> set (configPaths v) then v\<lparr>configPaths := configPaths v @ [p]\<rparr> else v)"

definition SetConfigName :: "string \<Rightarrow> viper \<Rightarrow> viper" where
  "SetConfigName n v = (if n \<noteq> [] then v\<lparr>configName := n, configFile := []\<rparr> else v)"

definition AutomaticEnv :: "viper \<Rightarrow> viper" where
  "AutomaticEnv v = v\<lparr>automaticEnvApplied := True\<rparr>"

definition SetEnvKeyReplacer :: "replacer \<Rightarrow> viper \<Rightarrow> viper" where
  "SetEnvKeyReplacer rp v = v\<lparr>envKeyReplacer := Some rp\<rparr>"

text \<open>\<open>BindPFlags\<close> visits every flag of the set and binds it under its lower-cased name.\<close>

definition BindPFlag :: "flag \<Rightarrow> viper \<Rightarrow> viper" where
  "BindPFlag f v = v\<lparr>pflags := (pflags v)(ToLower (flag_Name f) \<mapsto> f)\<rparr>"

definition BindPFlags :: "flag list \<Rightarrow> viper \<Rightarrow> viper" where
  "BindPFlags fs v = fold BindPFlag fs v"

text \<open>
  Looking for the configuration file: in each search path, the configured base name with
  each supported extension, the first that exists.
\<close>

definition searchInPath :: "filesystem \<Rightarrow> string \<Rightarrow> string \<Rightarrow> string option" where
  "searchInPath fs n dir =
     List.find (\<lambda>p. fs p \<noteq> NoFile) (map (\<lambda>e. dir @ ''/'' @ n @ ''.'' @ e) SupportedExts)"

definition findConfigFile :: "filesystem \<Rightarrow> viper \<Rightarrow> error + string" where
  "findConfigFile fs v =
     (case List.map_filter (searchInPath fs (configName v)) (configPaths v) of
        [] \<Rightarrow> Inl (ConfigFileNotFoundError (configName v) (configPaths v))
      | p # _ \<Rightarrow> Inr p)"

definition getConfigFile :: "filesystem \<Rightarrow> viper \<Rightarrow> error + viper" where
  "getConfigFile fs v =
     (if configFile v \<noteq> [] then Inr v
      else case findConfigFile fs v of
             Inl e \<Rightarrow> Inl e
           | Inr p \<Rightarrow> Inr (v\<lparr>configFile := p\<rparr>))"

definition getConfigType :: "viper \<Rightarrow> string" where
  "getConfigType v = (let e = Ext (configFile v) in if 1 < length e then tl e else [])"

text \<open>
  \<open>ReadInConfig\<close>: the updated state and the error, \<open>None\<close> for Go's \<open>nil\<close>. The settings are
  replaced only when the file was found, has a supported type, could be read and parsed.
\<close>

definition ReadInConfig :: "filesystem \<Rightarrow> viper \<Rightarrow> viper \<times> error option" where
  "ReadInConfig fs v =
     (case getConfigFile fs v of
        Inl e \<Rightarrow> (v, Some e)
      | Inr v' \<Rightarrow>
          if getConfigType v' \<notin> set SupportedExts
          then (v', Some (UnsupportedConfigError (getConfigType v')))
          else (case fs (configFile v') of
                  NoFile \<Rightarrow> (v', Some (ReadFileError (configFile v')))
                | Unreadable \<Rightarrow> (v', Some (ReadFileError (configFile v')))
                | Malformed msg \<Rightarrow> (v', Some (ConfigParseError msg))
                | Content m \<Rightarrow> (v'\<lparr>config := m\<rparr>, None)))"

definition ConfigFileUsed :: "viper \<Rightarrow> string" where
  "ConfigFileUsed v = configFile v"

text \<open>
  The name of the environment variable viper consults for a key: \<open>mergeWithEnvPrefix\<close>
  upper-cases it (no prefix is set) and \<open>getEnv\<close> applies the key replacer, if any.
\<close>

definition mergeWithEnvPrefix :: "string \<Rightarrow> string" where
  "mergeWithEnvPrefix k = ToUpper k"

definition envVarName :: "viper \<Rightarrow> string \<Rightarrow> string" where
  "envVarName v k = (case envKeyReplacer v of None \<Rightarrow> k | Some rp \<Rightarrow> Replace rp k)"

definition getEnv :: "viper \<Rightarrow> environ \<Rightarrow> string \<Rightarrow> string" where
  "getEnv v env k = env (envVarName v k)"

text \<open>
  Modelled from the spec: viper's lookup of one key (\<open>find\<close>, in the library and not under
  \<^verbatim>\<open>src/\<close>), over the sources this program enables: a bound flag the caller changed,
  then the environment (when \<open>AutomaticEnv\<close> is on; an empty value counts as not set),
  then the configuration file, and last a bound flag's value, which is then its default.
  \<open>None\<close> is Go's \<open>nil\<close>.
\<close>

definition find_key :: "viper \<Rightarrow> environ \<Rightarrow> string \<Rightarrow> string option" where
  "find_key v env k =
     (case pflags v k of
        Some f \<Rightarrow>
          if flag_Changed f then Some (flag_Value f)
          else if automaticEnvApplied v \<and> getEnv v env (mergeWithEnvPrefix k) \<noteq> []
          then Some (getEnv v env (mergeWithEnvPrefix k))
          else (case config v k of Some x \<Rightarrow> Some x | None \<Rightarrow> Some (flag_Value f))
      | None \<Rightarrow>
          if automaticEnvApplied v \<and> getEnv v env (mergeWithEnvPrefix k) \<noteq> []
          then Some (getEnv v env (mergeWithEnvPrefix k))
          else config v k)"

text \<open>\<open>viper.GetString\<close>: the key is lower-cased, and \<open>nil\<close> reads as the empty string.\<close>

definition GetString :: "viper \<Rightarrow> environ \<Rightarrow> string \<Rightarrow> string" where
  "GetString v env k = (case find_key v env (ToLower k) of Some x \<Rightarrow> x | None \<Rightarrow> [])"

section \<open>initConfig\<close>

text \<open>Operands of \<open>fmt.Println\<close>: a string or an error value; one list per printed line.\<close>

datatype operand = S string | E error

record proc =
  vp :: viper
  stdout :: "operand list list"

text \<open>
  \<open>initConfig\<close>, root.go lines 107-126. It reads the globals \<open>cfgFile\<close> and \<open>RootCmd.Flags()\<close>,
  and the file system; it updates the global viper and prints one line. It has no result
  and no exit.
\<close>

definition initConfig :: "string \<Rightarrow> flag list \<Rightarrow> filesystem \<Rightarrow> proc \<Rightarrow> proc" where
  "initConfig cfgFile flags fs s =
     (let v1 = (if cfgFile \<noteq> [] then SetConfigFile cfgFile (vp s)
                else SetConfigName ''lite-idp'' (AddConfigPath ''/etc/lite-idp'' (vp s)));
          v2 = AutomaticEnv v1;
          v3 = SetEnvKeyReplacer (CHR ''-'', CHR ''_'') v2;
          v4 = BindPFlags flags v3
      in case ReadInConfig fs v4 of
           (v5, None) \<Rightarrow>
             s\<lparr>vp := v5, stdout := stdout s @ [[S ''using config file:'', S (ConfigFileUsed v5)]]\<rparr>
         | (v5, Some err) \<Rightarrow>
             s\<lparr>vp := v5, stdout := stdout s @ [[S ''failed to load config file:'', E err]]\<rparr>)"

definition proc_start :: proc where
  "proc_start = \<lparr>vp = viper_New, stdout = []\<rparr>"

section \<open>HTTP responses and handlers (net/http)\<close>

text \<open>
  \<open>http.Header\<close> is a map from header names to lists of values. \<open>Add\<close> appends to the
  list under the key, \<open>Set\<close> replaces the list by one value, \<open>Del\<close> removes the key. The
  library first brings the key into canonical form; every key written in this theory is
  already canonical.
\<close>

type_synonym header = "string \<rightharpoonup> string list"

definition Header_Values :: "header \<Rightarrow> string \<Rightarrow> string list" where
  "Header_Values h k = (case h k of None \<Rightarrow> [] | Some vs \<Rightarrow> vs)"

definition Header_Add :: "header \<Rightarrow> string \<Rightarrow> string \<Rightarrow> header" where
  "Header_Add h k x = h(k \<mapsto> Header_Values h k @ [x])"

definition Header_Set :: "header \<Rightarrow> string \<Rightarrow> string \<Rightarrow> header" where
  "Header_Set h k x = h(k \<mapsto> [x])"

definition Header_Del :: "header \<Rightarrow> string \<Rightarrow> header" where
  "Header_Del h k = h(k := None)"

record request =
  req_Method :: string
  req_Path :: string

text \<open>One line of the access log: the request, the status written (if any), the body size.\<close>

record access =
  acc_request :: request
  acc_status :: "nat option"
  acc_size :: nat

text \<open>
  The state a handler works on: the \<open>http.ResponseWriter\<close> of one request (its header map,
  the status and headers once they have been written, the body so far) and the access
  log on \<open>os.Stdout\<close>.
\<close>

record exchange =
  hdr :: header
  sent :: "(nat \<times> header) option"
  body :: string
  access_log :: "access list"

text \<open>An \<open>http.Handler\<close>: \<open>ServeHTTP(w, r)\<close>, returning the state it leaves.\<close>

type_synonym handler = "exchange \<Rightarrow> request \<Rightarrow> exchange"

text \<open>
  \<open>WriteHeader\<close> sends the status with the header map as it is at that moment; a second
  call changes nothing. \<open>Write\<close> sends status 200 first when nothing was sent yet.
\<close>

definition WriteHeader :: "nat \<Rightarrow> exchange \<Rightarrow> exchange" where
  "WriteHeader st w = (case sent w of None \<Rightarrow> w\<lparr>sent := Some (st, hdr w)\<rparr> | Some _ \<Rightarrow> w)"

definition Write :: "string \<Rightarrow> exchange \<Rightarrow> exchange" where
  "Write b w = (let w1 = WriteHeader 200 w in w1\<lparr>body := body w1 @ b\<rparr>)"

text \<open>
  The response the client receives when the handler has returned: what was sent, or
  status 200 with the final header map when the handler wrote nothing.
\<close>

definition response :: "exchange \<Rightarrow> nat \<times> header" where
  "response w = (case sent w of Some x \<Rightarrow> x | None \<Rightarrow> (200, hdr w))"

definition response_status :: "exchange \<Rightarrow> nat" where
  "response_status w = fst (response w)"

definition response_header :: "exchange \<Rightarrow> header" where
  "response_header w = snd (response w)"

text \<open>The state the server hands to its handler for a new request.\<close>

definition new_exchange :: "access list \<Rightarrow> exchange" where
  "new_exchange lg = \<lparr>hdr = Map.empty, sent = None, body = [], access_log = lg\<rparr>"

section \<open>The transport-security middleware\<close>

definition STS :: string where
  "STS = ''Strict-Transport-Security''"

definition STS_policy :: string where
  "STS_policy = ''max-age=63072000; includeSubDomains''"

text \<open>\<open>hstsHandler.ServeHTTP\<close>, root.go lines 72-75, for the wrapped handler \<open>h\<close>.\<close>

definition hstsHandler_ServeHTTP :: "handler \<Rightarrow> handler" where
  "hstsHandler_ServeHTTP h w r = h (w\<lparr>hdr := Header_Add (hdr w) STS STS_policy\<rparr>) r"

text \<open>\<open>hsts\<close>, root.go lines 77-79.\<close>

definition hsts :: "handler \<Rightarrow> handler" where
  "hsts h = hstsHandler_ServeHTTP h"

section \<open>The access-logging middleware (gorilla/handlers)\<close>

text \<open>
  \<open>handlers.CombinedLoggingHandler(os.Stdout, h)\<close>: runs \<open>h\<close> on the request and then writes
  one line about it to the log.
\<close>

definition CombinedLoggingHandler :: "handler \<Rightarrow> handler" where
  "CombinedLoggingHandler h w r =
     (let w' = h w r
      in w'\<lparr>access_log := access_log w' @
            [\<lparr>acc_request = r, acc_status = map_option fst (sent w'),
              acc_size = length (body w')\<rparr>]\<rparr>)"

section \<open>RootCmd.RunE and Execute\<close>

record 't server =
  srv_TLSConfig :: 't
  srv_Handler :: handler
  srv_Addr :: string

text \<open>
  The server value built in \<open>RunE\<close>, root.go lines 48-52, from the handler and the TLS
  configuration the application service supplies.
\<close>

definition new_server :: "viper \<Rightarrow> environ \<Rightarrow> handler \<Rightarrow> 't \<Rightarrow> 't server" where
  "new_server v env handler tls =
     \<lparr>srv_TLSConfig = tls,
      srv_Handler = CombinedLoggingHandler (hsts handler),
      srv_Addr = GetString v env ''listen-address''\<rparr>"

text \<open>
  \<open>RunE\<close>, root.go lines 39-65, as the sequential run of the main goroutine. \<open>app\<close> is what
  \<open>idp.Handler()\<close> returns (an error, or the handler together with the TLS configuration
  it leaves in \<open>idp.TLSConfig\<close>); \<open>listen\<close> is the blocking \<open>ListenAndServeTLS\<close> call on the
  server built here, which by its contract always returns a non-nil error. The result is
  the lines logged and the error returned (\<open>None\<close> for \<open>nil\<close>). The signal channel and the
  goroutine that calls \<open>Shutdown\<close> act only through what \<open>listen\<close> returns.
\<close>

definition RunE ::
  "viper \<Rightarrow> environ \<Rightarrow> error + (handler \<times> 't) \<Rightarrow> ('t server \<Rightarrow> error) \<Rightarrow> string list \<times> error option"
where
  "RunE v env app listen =
     (case app of
        Inl err \<Rightarrow> ([], Some err)
      | Inr (handler, tls) \<Rightarrow>
          (let server = new_server v env handler tls;
               lg = [''listening for connections on '' @ srv_Addr server];
               err = listen server
           in if err \<noteq> ErrServerClosed then (lg, Some err)
              else (lg @ [''server shutdown cleanly''], None)))"

text \<open>
  \<open>RootCmd.Execute()\<close> (cobra): parse the command line, run the initializer registered
  with \<open>cobra.OnInitialize\<close> (root.go line 91), run \<open>RunE\<close>, and return its error.
\<close>

definition RootCmd_Execute ::
  "(string \<times> string) list \<Rightarrow> environ \<Rightarrow> filesystem \<Rightarrow> error + (handler \<times> 't) \<Rightarrow>
   ('t server \<Rightarrow> error) \<Rightarrow> proc \<Rightarrow> proc \<times> string list \<times> error option"
where
  "RootCmd_Execute args env fs app listen s =
     (case ParseFlags DeclaredFlags args of
        Inl e \<Rightarrow> (s, [], Some e)
      | Inr flags \<Rightarrow>
          (let s' = initConfig (cfgFile_of flags) flags fs s;
               (lg, r) = RunE (vp s') env app listen
           in (s', lg, r)))"

record outcome =
  out_stdout :: "operand list list"
  out_log :: "string list"
  exit_code :: nat

text \<open>
  \<open>Execute\<close>, root.go lines 83-88: on an error, print it and exit with status 1; otherwise
  return to \<open>main\<close>, and the process ends with status 0.
\<close>

definition Execute ::
  "(string \<times> string) list \<Rightarrow> environ \<Rightarrow> filesystem \<Rightarrow> error + (handler \<times> 't) \<Rightarrow>
   ('t server \<Rightarrow> error) \<Rightarrow> outcome"
where
  "Execute args env fs app listen =
     (case RootCmd_Execute args env fs app listen proc_start of
        (s, lg, None) \<Rightarrow> \<lparr>out_stdout = stdout s, out_log = lg, exit_code = 0\<rparr>
      | (s, lg, Some err) \<Rightarrow>
          \<lparr>out_stdout = stdout s @ [[E err]], out_log = lg, exit_code = 1\<rparr>)"

section \<open>Properties of handlers used to state the claims\<close>

text \<open>
  A handler keeps the values of header \<open>k\<close> when every value that is in the header map
  as it starts on a response not yet sent is in the response the client receives.
\<close>

definition keeps_header :: "handler \<Rightarrow> string \<Rightarrow> bool" where
  "keeps_header h k =
     (\<forall>w r x. sent w = None \<longrightarrow> x \<in> set (Header_Values (hdr w) k) \<longrightarrow>
        x \<in> set (Header_Values (response_header (h w r)) k))"

text \<open>
  The viper state \<open>initConfig\<close> has built when it calls \<open>ReadInConfig\<close> (root.go lines
  108-118), and the paths it may then read: the one given, or else the well-known
  directory and base name with each supported extension.
\<close>

definition configured :: "string \<Rightarrow> flag list \<Rightarrow> viper \<Rightarrow> viper" where
  "configured cfgFile flags v0 =
     BindPFlags flags (SetEnvKeyReplacer (CHR ''-'', CHR ''_'') (AutomaticEnv
       (if cfgFile \<noteq> [] then SetConfigFile cfgFile v0
        else SetConfigName ''lite-idp'' (AddConfigPath ''/etc/lite-idp'' v0))))"

definition config_candidates :: "string \<Rightarrow> string list" where
  "config_candidates cfgFile =
     (if cfgFile \<noteq> [] then [cfgFile]
      else map (\<lambda>e. ''/etc/lite-idp/lite-idp.'' @ e) SupportedExts)"

section \<open>Example inputs\<close>

text \<open>
  A command line that supplies \<open>--listen-address 0.0.0.0:443\<close> (the flag set it leaves), a
  file system with a configuration file at the default path, and an environment that
  sets \<open>LISTEN_ADDRESS\<close>.
\<close>

definition flags_with_listen :: "flag list" where
  "flags_with_listen =
     map (\<lambda>f. if flag_Name f = ''listen-address''
              then f\<lparr>flag_Value := ''0.0.0.0:443'', flag_Changed := True\<rparr> else f)
       DeclaredFlags"

definition ex_fs :: filesystem where
  "ex_fs p =
     (if p = ''/etc/lite-idp/lite-idp.yaml''
      then Content [''listen-address'' \<mapsto> ''10.0.0.1:8443''] else NoFile)"

definition ex_env :: environ where
  "ex_env n = (if n = ''LISTEN_ADDRESS'' then ''192.168.0.1:9000'' else [])"

section \<open>Facts about the string functions\<close>

lemmas letters = to_upper_def to_lower_def lower_letters_def upper_letters_def

lemma to_upper_to_lower: "to_upper (to_lower c) = to_upper c"
  by (simp add: letters split: option.splits if_splits)

lemma ToUpper_ToLower: "ToUpper (ToLower s) = ToUpper s"
  by (simp add: ToUpper_def ToLower_def to_upper_to_lower)

section \<open>Facts about flags, binding and reading the file\<close>

lemma Lookup_Some_name: "Lookup fs k = Some f \<Longrightarrow> flag_Name f = k \<and> f \<in> set fs"
  by (induction fs) (auto split: if_splits)

lemma Lookup_None: "Lookup fs k = None \<longleftrightarrow> k \<notin> flag_Name ` set fs"
  by (induction fs) auto

lemma BindPFlags_fields:
  "configFile (BindPFlags fs v) = configFile v \<and> configName (BindPFlags fs v) = configName v
   \<and> configPaths (BindPFlags fs v) = configPaths v
   \<and> automaticEnvApplied (BindPFlags fs v) = automaticEnvApplied v
   \<and> envKeyReplacer (BindPFlags fs v) = envKeyReplacer v
   \<and> config (BindPFlags fs v) = config v"
  unfolding BindPFlags_def
  by (induction fs arbitrary: v) (simp_all add: BindPFlag_def)

lemma BindPFlags_pflags:
  assumes "distinct (map flag_Name fs)" and "\<forall>f\<in>set fs. ToLower (flag_Name f) = flag_Name f"
  shows "pflags (BindPFlags fs v) k = (case Lookup fs k of Some f \<Rightarrow> Some f | None \<Rightarrow> pflags v k)"
  using assms unfolding BindPFlags_def
proof (induction fs arbitrary: v)
  case Nil
  then show ?case by simp
next
  case (Cons g gs)
  have nk: "flag_Name g = k \<Longrightarrow> Lookup gs k = None"
    using Cons.prems(1) by (auto simp: Lookup_None)
  show ?case
    using Cons.IH[of "BindPFlag g v"] Cons.prems nk
    by (auto simp: BindPFlag_def split: option.splits)
qed

lemma Lookup_map_set:
  "Lookup (map (\<lambda>f. if flag_Name f = n then f\<lparr>flag_Value := x, flag_Changed := True\<rparr> else f) fs) k
     = (if k = n then map_option (\<lambda>f. f\<lparr>flag_Value := x, flag_Changed := True\<rparr>) (Lookup fs k)
        else Lookup fs k)"
  by (induction fs) auto

lemma FlagSet_Set_Lookup:
  "FlagSet_Set fs n x = Inr fs' \<Longrightarrow>
   Lookup fs' k =
     (if k = n then map_option (\<lambda>f. f\<lparr>flag_Value := x, flag_Changed := True\<rparr>) (Lookup fs k)
      else Lookup fs k)"
  unfolding FlagSet_Set_def
  by (auto simp: Lookup_map_set split: if_splits)

lemma FlagSet_Set_names:
  "FlagSet_Set fs n x = Inr fs' \<Longrightarrow> map flag_Name fs' = map flag_Name fs"
  unfolding FlagSet_Set_def
  by (auto split: if_splits)

lemma ParseFlags_names:
  "ParseFlags fs args = Inr fs' \<Longrightarrow> map flag_Name fs' = map flag_Name fs"
  by (induction fs args arbitrary: fs' rule: ParseFlags.induct)
     (auto split: sum.splits dest: FlagSet_Set_names)

lemma ParseFlags_Lookup:
  "ParseFlags fs args = Inr fs' \<Longrightarrow>
   Lookup fs' k = (case map_of (rev args) k of
                     Some x \<Rightarrow> map_option (\<lambda>f. f\<lparr>flag_Value := x, flag_Changed := True\<rparr>) (Lookup fs k)
                   | None \<Rightarrow> Lookup fs k)"
proof (induction fs args arbitrary: fs' rule: ParseFlags.induct)
  case (1 fs)
  then show ?case by simp
next
  case (2 fs n v rest)
  from "2.prems" obtain fs1 where s: "FlagSet_Set fs n v = Inr fs1" and p: "ParseFlags fs1 rest = Inr fs'"
    by (auto split: sum.splits)
  show ?case
    using "2.IH"[OF s p] FlagSet_Set_Lookup[OF s, of k]
    by (auto simp: map_add_def option.map_comp comp_def split: option.splits)
qed

lemma DeclaredFlags_names:
  "map flag_Name DeclaredFlags =
     [''tls-certificate'', ''tls-private-key'', ''tls-ca'', ''listen-address'', ''server-name'',
      ''entity-id'', ''metadata-path'', ''sso-service-path'', ''artifact-service-path'',
      ''attribute-service-path'', ''config'']"
  by (simp add: DeclaredFlags_def LocalFlags_def PersistentFlags_def new_flag_def)

lemma DeclaredFlags_distinct: "distinct (map flag_Name DeclaredFlags)"
  unfolding DeclaredFlags_names by simp

lemma DeclaredFlags_lower: "\<forall>n\<in>set (map flag_Name DeclaredFlags). ToLower n = n"
  unfolding DeclaredFlags_names by (simp add: ToLower_def letters)

lemma Lookup_unchanged:
  "\<forall>g\<in>set fs. \<not> flag_Changed g \<and> flag_Value g = flag_DefValue g \<Longrightarrow>
   Lookup fs k = Some f \<Longrightarrow> \<not> flag_Changed f \<and> flag_Value f = flag_DefValue f"
  by (induction fs) (auto split: if_splits)

lemma DeclaredFlags_unchanged:
  "Lookup DeclaredFlags k = Some f \<Longrightarrow> \<not> flag_Changed f \<and> flag_Value f = flag_DefValue f"
  by (rule Lookup_unchanged[of DeclaredFlags])
     (simp_all add: DeclaredFlags_def LocalFlags_def PersistentFlags_def new_flag_def)

lemma parsed_flags_ok:
  assumes "ParseFlags DeclaredFlags args = Inr flags"
  shows "distinct (map flag_Name flags)" and "\<forall>f\<in>set flags. ToLower (flag_Name f) = flag_Name f"
proof -
  have n: "map flag_Name flags = map flag_Name DeclaredFlags"
    using assms by (rule ParseFlags_names)
  show "distinct (map flag_Name flags)"
    unfolding n by (rule DeclaredFlags_distinct)
  have "\<forall>n\<in>set (map flag_Name flags). ToLower n = n"
    unfolding n by (rule DeclaredFlags_lower)
  then show "\<forall>f\<in>set flags. ToLower (flag_Name f) = flag_Name f"
    by simp
qed

lemma parsed_flag_default:
  assumes "ParseFlags DeclaredFlags args = Inr flags" and "Lookup flags k = Some f"
    and "\<not> flag_Changed f"
  shows "flag_Value f = flag_DefValue f \<and> Lookup DeclaredFlags k = Some f"
proof (cases "map_of (rev args) k")
  case None
  then have "Lookup flags k = Lookup DeclaredFlags k"
    using ParseFlags_Lookup[OF assms(1), of k] by simp
  then show ?thesis
    using assms(2) DeclaredFlags_unchanged[of k f] by simp
next
  case (Some x)
  then have "Lookup flags k = map_option (\<lambda>f. f\<lparr>flag_Value := x, flag_Changed := True\<rparr>) (Lookup DeclaredFlags k)"
    using ParseFlags_Lookup[OF assms(1), of k] by simp
  then have "flag_Changed f"
    using assms(2) by (cases "Lookup DeclaredFlags k") auto
  then show ?thesis
    using assms(3) by simp
qed

lemma getConfigFile_fields:
  "getConfigFile fs v = Inr v' \<Longrightarrow>
     pflags v' = pflags v \<and> automaticEnvApplied v' = automaticEnvApplied v
     \<and> envKeyReplacer v' = envKeyReplacer v \<and> config v' = config v"
  by (auto simp: getConfigFile_def split: if_splits sum.splits)

lemma ReadInConfig_fields:
  "pflags (fst (ReadInConfig fs v)) = pflags v
   \<and> automaticEnvApplied (fst (ReadInConfig fs v)) = automaticEnvApplied v
   \<and> envKeyReplacer (fst (ReadInConfig fs v)) = envKeyReplacer v"
  by (auto simp: ReadInConfig_def split: sum.splits config_file.splits dest: getConfigFile_fields)

lemma ReadInConfig_error_config:
  "snd (ReadInConfig fs v) = Some e \<Longrightarrow> config (fst (ReadInConfig fs v)) = config v"
  by (auto simp: ReadInConfig_def split: sum.splits config_file.splits if_splits dest: getConfigFile_fields)

lemma ReadInConfig_explicit:
  assumes "configFile v \<noteq> []" and "getConfigType v \<in> set SupportedExts"
    and "fs (configFile v) = Content m"
  shows "ReadInConfig fs v = (v\<lparr>config := m\<rparr>, None)"
  using assms by (simp add: ReadInConfig_def getConfigFile_def)

lemma initConfig_vp:
  "vp (initConfig cfgFile flags fs s) = fst (ReadInConfig fs (configured cfgFile flags (vp s)))"
  by (simp add: initConfig_def configured_def Let_def split: prod.splits option.splits)

lemma initConfig_stdout:
  "stdout (initConfig cfgFile flags fs s) = stdout s @
     [case snd (ReadInConfig fs (configured cfgFile flags (vp s))) of
        None \<Rightarrow> [S ''using config file:'', S (ConfigFileUsed (vp (initConfig cfgFile flags fs s)))]
      | Some err \<Rightarrow> [S ''failed to load config file:'', E err]]"
  by (simp add: initConfig_def configured_def Let_def split: prod.splits option.splits)

lemma configured_fields:
  "automaticEnvApplied (configured cfgFile flags v0) = True
   \<and> envKeyReplacer (configured cfgFile flags v0) = Some (CHR ''-'', CHR ''_'')
   \<and> config (configured cfgFile flags v0) = config v0"
  by (simp add: configured_def BindPFlags_fields SetEnvKeyReplacer_def AutomaticEnv_def
        SetConfigFile_def SetConfigName_def AddConfigPath_def)

lemma configured_configFile:
  "cfgFile \<noteq> [] \<Longrightarrow> configFile (configured cfgFile flags v0) = cfgFile"
  by (simp add: configured_def BindPFlags_fields SetEnvKeyReplacer_def AutomaticEnv_def
        SetConfigFile_def)

lemma configured_pflags:
  assumes "distinct (map flag_Name flags)" and "\<forall>f\<in>set flags. ToLower (flag_Name f) = flag_Name f"
    and "Lookup flags k = Some f"
  shows "pflags (configured cfgFile flags v0) k = Some f"
  using BindPFlags_pflags[OF assms(1,2)] assms(3)
  by (simp add: configured_def)

lemma initConfig_fields:
  "automaticEnvApplied (vp (initConfig cfgFile flags fs s)) = True
   \<and> envKeyReplacer (vp (initConfig cfgFile flags fs s)) = Some (CHR ''-'', CHR ''_'')
   \<and> pflags (vp (initConfig cfgFile flags fs s)) = pflags (configured cfgFile flags (vp s))"
  by (simp add: initConfig_vp ReadInConfig_fields configured_fields)

lemma GetString_bound_flag:
  assumes "distinct (map flag_Name flags)" and "\<forall>f\<in>set flags. ToLower (flag_Name f) = flag_Name f"
    and "Lookup flags k = Some f"
  shows "GetString (vp (initConfig cfgFile flags fs s)) env k =
     (if flag_Changed f then flag_Value f
      else if env (Replace (CHR ''-'', CHR ''_'') (ToUpper k)) \<noteq> []
      then env (Replace (CHR ''-'', CHR ''_'') (ToUpper k))
      else case config (vp (initConfig cfgFile flags fs s)) k of
             Some x \<Rightarrow> x | None \<Rightarrow> flag_Value f)"
proof -
  have k: "ToLower k = k"
    using assms(2,3) Lookup_Some_name[of flags k f] by auto
  show ?thesis
    using configured_pflags[OF assms, of cfgFile "vp s"]
    by (simp add: GetString_def find_key_def k initConfig_fields getEnv_def envVarName_def
          mergeWithEnvPrefix_def split: option.splits)
qed

lemma getConfigType_configFile:
  "configFile v = configFile v' \<Longrightarrow> getConfigType v = getConfigType v'"
  by (simp add: getConfigType_def)

lemma initConfig_config_loaded:
  assumes "cfgFile \<noteq> []" and "getConfigType (SetConfigFile cfgFile viper_New) \<in> set SupportedExts"
    and "fs cfgFile = Content m"
  shows "config (vp (initConfig cfgFile flags fs s)) = m"
proof -
  let ?v = "configured cfgFile flags (vp s)"
  have cf: "configFile ?v = cfgFile"
    using assms(1) by (rule configured_configFile)
  have "getConfigType ?v = getConfigType (SetConfigFile cfgFile viper_New)"
    by (rule getConfigType_configFile) (simp add: cf SetConfigFile_def assms(1))
  then have "ReadInConfig fs ?v = (?v\<lparr>config := m\<rparr>, None)"
    using ReadInConfig_explicit[of ?v fs m] cf assms by simp
  then show ?thesis
    by (simp add: initConfig_vp)
qed

lemma find_SomeD: "List.find P xs = Some x \<Longrightarrow> P x \<and> x \<in> set xs"
  by (induction xs) (auto split: if_splits)

lemma findConfigFile_candidate:
  assumes "findConfigFile fs v = Inr p" and "configName v = ''lite-idp''"
    and "configPaths v = [''/etc/lite-idp'']"
  shows "p \<in> set (config_candidates []) \<and> fs p \<noteq> NoFile"
proof -
  have "searchInPath fs ''lite-idp'' ''/etc/lite-idp'' = Some p"
    using assms
    by (cases "searchInPath fs ''lite-idp'' ''/etc/lite-idp''")
       (simp_all add: findConfigFile_def List.map_filter_def)
  then have "fs p \<noteq> NoFile
      \<and> p \<in> set (map (\<lambda>e. ''/etc/lite-idp'' @ ''/'' @ ''lite-idp'' @ ''.'' @ e) SupportedExts)"
    unfolding searchInPath_def by (rule find_SomeD)
  then show ?thesis
    by (simp add: config_candidates_def)
qed

lemma ReadInConfig_fails:
  assumes "\<forall>m. fs (configFile v) \<noteq> Content m" and "configFile v \<noteq> []"
  shows "\<exists>e. snd (ReadInConfig fs v) = Some e"
  using assms
  by (cases "fs (configFile v)") (auto simp: ReadInConfig_def getConfigFile_def)

lemma ParseFlags_no_args: "ParseFlags fs [] = Inr fs"
  by simp

lemma Execute_parsed:
  assumes "ParseFlags DeclaredFlags args = Inr flags"
  shows "Execute args env fs (Inr (h, tls)) listen =
    (let s = initConfig (cfgFile_of flags) flags fs proc_start;
         srv = new_server (vp s) env h tls;
         lg = [''listening for connections on '' @ srv_Addr srv]
     in if listen srv = ErrServerClosed
        then \<lparr>out_stdout = stdout s, out_log = lg @ [''server shutdown cleanly''], exit_code = 0\<rparr>
        else \<lparr>out_stdout = stdout s @ [[E (listen srv)]], out_log = lg, exit_code = 1\<rparr>)"
  using assms by (simp add: Execute_def RootCmd_Execute_def RunE_def Let_def)

lemma yaml_supported: "getConfigType (SetConfigFile ''/etc/lite-idp/lite-idp.yaml'' viper_New) \<in> set SupportedExts"
  by (simp add: getConfigType_def SetConfigFile_def Ext_def SupportedExts_def)

lemma env_name_listen: "Replace (CHR ''-'', CHR ''_'') (ToUpper ''listen-address'') = ''LISTEN_ADDRESS''"
  by (simp add: Replace_def ToUpper_def letters)

lemma Lookup_listen_default:
  "Lookup DeclaredFlags ''listen-address'' = Some (new_flag ''listen-address'' ''127.0.0.1:9443'')"
  by (simp add: DeclaredFlags_def LocalFlags_def new_flag_def)

lemma DeclaredFlags_name_set:
  "flag_Name ` set DeclaredFlags = set [''tls-certificate'', ''tls-private-key'', ''tls-ca'', ''listen-address'', ''server-name'',
      ''entity-id'', ''metadata-path'', ''sso-service-path'', ''artifact-service-path'',
      ''attribute-service-path'', ''config'']"
  unfolding DeclaredFlags_names[symmetric] by simp

lemma parse_listen: "ParseFlags DeclaredFlags [(''listen-address'', ''0.0.0.0:443'')] = Inr flags_with_listen"
  by (simp add: FlagSet_Set_def DeclaredFlags_name_set flags_with_listen_def)

lemma Lookup_listen_set:
  "Lookup flags_with_listen ''listen-address'' =
     Some \<lparr>flag_Name = ''listen-address'', flag_DefValue = ''127.0.0.1:9443'',
           flag_Value = ''0.0.0.0:443'', flag_Changed = True\<rparr>"
  by (simp add: flags_with_listen_def Lookup_map_set Lookup_listen_default new_flag_def)

lemma initConfig_configFile:
  "cfgFile \<noteq> [] \<Longrightarrow> ConfigFileUsed (vp (initConfig cfgFile flags fs s)) = cfgFile"
  using configured_configFile[of cfgFile flags "vp s"]
  by (auto simp: initConfig_vp ConfigFileUsed_def ReadInConfig_def getConfigFile_def
        split: config_file.splits)

lemma configured_search:
  "configFile (configured [] flags viper_New) = []
   \<and> configName (configured [] flags viper_New) = ''lite-idp''
   \<and> configPaths (configured [] flags viper_New) = [''/etc/lite-idp'']"
  by (simp add: configured_def BindPFlags_fields SetEnvKeyReplacer_def AutomaticEnv_def
        SetConfigName_def AddConfigPath_def viper_New_def)

lemma ReadInConfig_search_fails:
  assumes "\<forall>p\<in>set (config_candidates []). \<forall>m. fs p \<noteq> Content m"
    and "configFile v = []" and "configName v = ''lite-idp''" and "configPaths v = [''/etc/lite-idp'']"
  shows "\<exists>e. snd (ReadInConfig fs v) = Some e"
proof (cases "findConfigFile fs v")
  case (Inl e)
  then show ?thesis
    using assms(2) by (simp add: ReadInConfig_def getConfigFile_def)
next
  case (Inr p)
  then have p: "p \<in> set (config_candidates [])"
    using findConfigFile_candidate[OF Inr assms(3,4)] by simp
  then have "\<forall>m. fs p \<noteq> Content m"
    using assms(1) by blast
  then show ?thesis
    using Inr assms(2)
    by (cases "fs p") (auto simp: ReadInConfig_def getConfigFile_def)
qed

lemma initConfig_fails:
  assumes "\<forall>p\<in>set (config_candidates cfgFile). \<forall>m. fs p \<noteq> Content m"
  shows "\<exists>e. snd (ReadInConfig fs (configured cfgFile flags viper_New)) = Some e"
proof (cases "cfgFile = []")
  case True
  then show ?thesis
    using ReadInConfig_search_fails[of fs "configured [] flags viper_New"] assms configured_search[of flags]
    by simp
next
  case False
  then have "\<forall>m. fs (configFile (configured cfgFile flags viper_New)) \<noteq> Content m"
    using assms by (simp add: config_candidates_def configured_configFile)
  then show ?thesis
    using ReadInConfig_fails[of fs "configured cfgFile flags viper_New"] False
    by (simp add: configured_configFile)
qed

lemma Lookup_append:
  "Lookup (fs @ gs) k = (case Lookup fs k of Some f \<Rightarrow> Some f | None \<Rightarrow> Lookup gs k)"
  by (induction fs) auto

lemma Lookup_config_default:
  "Lookup DeclaredFlags ''config'' = Some (new_flag ''config'' ''/etc/lite-idp/lite-idp.yaml'')"
  by (simp add: DeclaredFlags_def LocalFlags_def PersistentFlags_def new_flag_def)

lemma cfgFile_of_parsed:
  assumes "ParseFlags DeclaredFlags args = Inr flags"
  shows "cfgFile_of flags =
     (case map_of (rev args) ''config'' of Some p \<Rightarrow> p | None \<Rightarrow> ''/etc/lite-idp/lite-idp.yaml'')"
  using ParseFlags_Lookup[OF assms, of "''config''"] Lookup_config_default
  by (simp add: cfgFile_of_def new_flag_def split: option.splits)

lemma ReadInConfig_search_configFile:
  assumes "configFile v = []" and "configName v = ''lite-idp''"
    and "configPaths v = [''/etc/lite-idp'']"
  shows "configFile (fst (ReadInConfig fs v)) \<in> set ([] # config_candidates [])"
proof (cases "findConfigFile fs v")
  case (Inl e)
  then show ?thesis
    using assms(1) by (simp add: ReadInConfig_def getConfigFile_def)
next
  case (Inr p)
  then have "p \<in> set (config_candidates [])"
    using findConfigFile_candidate[OF Inr assms(2,3)] by simp
  then show ?thesis
    using Inr assms(1)
    by (auto simp: ReadInConfig_def getConfigFile_def split: config_file.splits)
qed

lemma initConfig_ConfigFileUsed:
  "ConfigFileUsed (vp (initConfig cfgFile flags fs proc_start)) \<in> set ([] # config_candidates cfgFile)"
proof (cases "cfgFile = []")
  case True
  then show ?thesis
    using ReadInConfig_search_configFile[of "configured [] flags viper_New" fs]
          configured_search[of flags]
    by (simp add: initConfig_vp ConfigFileUsed_def proc_start_def)
next
  case False
  then show ?thesis
    using initConfig_configFile[OF False, of flags fs proc_start]
    by (simp add: config_candidates_def)
qed

lemma Lookup_listen_local:
  "Lookup LocalFlags ''listen-address'' = Some (new_flag ''listen-address'' ''127.0.0.1:9443'')"
  by (simp add: LocalFlags_def new_flag_def)

lemma initConfig_pflags_parsed:
  assumes "ParseFlags DeclaredFlags args = Inr flags"
  shows "pflags (vp (initConfig cfgFile flags fs proc_start)) k = Lookup flags k"
proof -
  let ?v0 = "SetEnvKeyReplacer (CHR ''-'', CHR ''_'') (AutomaticEnv
       (if cfgFile \<noteq> [] then SetConfigFile cfgFile viper_New
        else SetConfigName ''lite-idp'' (AddConfigPath ''/etc/lite-idp'' viper_New)))"
  have e: "pflags ?v0 k = None"
    by (simp add: SetEnvKeyReplacer_def AutomaticEnv_def SetConfigFile_def
          SetConfigName_def AddConfigPath_def viper_New_def)
  have "pflags (BindPFlags flags ?v0) k
          = (case Lookup flags k of Some f \<Rightarrow> Some f | None \<Rightarrow> pflags ?v0 k)"
    by (rule BindPFlags_pflags[OF parsed_flags_ok[OF assms]])
  also have "\<dots> = Lookup flags k"
    unfolding e by (cases "Lookup flags k") simp_all
  finally show ?thesis
    by (simp add: initConfig_fields proc_start_def configured_def)
qed

lemma unsupplied_flag_unchanged:
  assumes "ParseFlags DeclaredFlags args = Inr flags" and "k \<notin> fst ` set args"
    and "Lookup flags k = Some f"
  shows "\<not> flag_Changed f"
proof -
  have "map_of (rev args) k = None"
    using assms(2) by (simp add: map_of_eq_None_iff)
  then have "Lookup DeclaredFlags k = Some f"
    using ParseFlags_Lookup[OF assms(1), of k] assms(3) by simp
  then show ?thesis
    using DeclaredFlags_unchanged by blast
qed

lemma GetString_loaded_file:
  assumes "ParseFlags DeclaredFlags args = Inr flags"
    and "Lookup flags k = Some f"
    and "cfgFile \<noteq> []"
    and "getConfigType (SetConfigFile cfgFile viper_New) \<in> set SupportedExts"
    and "fs cfgFile = Content m"
  shows "GetString (vp (initConfig cfgFile flags fs proc_start)) env k =
     (if flag_Changed f then flag_Value f
      else if env (Replace (CHR ''-'', CHR ''_'') (ToUpper k)) \<noteq> []
      then env (Replace (CHR ''-'', CHR ''_'') (ToUpper k))
      else case m k of Some x \<Rightarrow> x | None \<Rightarrow> flag_DefValue f)"
  using GetString_bound_flag[OF parsed_flags_ok[OF assms(1)] assms(2), of cfgFile fs proc_start env]
        initConfig_config_loaded[where cfgFile = cfgFile and fs = fs and m = m
          and flags = flags and s = proc_start]
        assms(3,4,5)
        parsed_flag_default[OF assms(1,2)]
  by (simp split: option.splits)

section \<open>Configuration resolution\<close>

text \<open>
  Claim C1: for a setting with a declared flag whose value is defined by the command
  line, the environment, the configuration file and the declared default, the effective
  value is the flag's; without the flag on the command line it is the environment's;
  without that, the file's; without that, the declared default. (The configuration file
  is one that loads: a path is given, its type is supported, and it parses to \<open>m\<close>.)
\<close>

theorem effective_value_by_precedence:
  assumes "ParseFlags DeclaredFlags args = Inr flags"
    and "Lookup flags k = Some f"
    and "cfgFile \<noteq> []"
    and "getConfigType (SetConfigFile cfgFile viper_New) \<in> set SupportedExts"
    and "fs cfgFile = Content m"
  shows "(flag_Changed f \<longrightarrow>
            GetString (vp (initConfig cfgFile flags fs proc_start)) env k = flag_Value f)
       \<and> (\<not> flag_Changed f \<and> env (Replace (CHR ''-'', CHR ''_'') (ToUpper k)) \<noteq> [] \<longrightarrow>
            GetString (vp (initConfig cfgFile flags fs proc_start)) env k
              = env (Replace (CHR ''-'', CHR ''_'') (ToUpper k)))
       \<and> (\<not> flag_Changed f \<and> env (Replace (CHR ''-'', CHR ''_'') (ToUpper k)) = []
            \<and> m k = Some x \<longrightarrow>
            GetString (vp (initConfig cfgFile flags fs proc_start)) env k = x)
       \<and> (\<not> flag_Changed f \<and> env (Replace (CHR ''-'', CHR ''_'') (ToUpper k)) = []
            \<and> m k = None \<longrightarrow>
            GetString (vp (initConfig cfgFile flags fs proc_start)) env k = flag_DefValue f)"
  using GetString_loaded_file [where args = args and flags = flags and k = k and f = f
          and cfgFile = cfgFile and fs = fs and m = m and env = env] assms
  by simp

theorem effective_value_by_precedence_witness:
  "ParseFlags DeclaredFlags [(''listen-address'', ''0.0.0.0:443'')] = Inr flags_with_listen
   \<and> GetString (vp (initConfig ''/etc/lite-idp/lite-idp.yaml'' flags_with_listen ex_fs proc_start))
         ex_env ''listen-address'' = ''0.0.0.0:443''
   \<and> GetString (vp (initConfig ''/etc/lite-idp/lite-idp.yaml'' DeclaredFlags ex_fs proc_start))
         ex_env ''listen-address'' = ''192.168.0.1:9000''
   \<and> GetString (vp (initConfig ''/etc/lite-idp/lite-idp.yaml'' DeclaredFlags ex_fs proc_start))
         (\<lambda>n. []) ''listen-address'' = ''10.0.0.1:8443''
   \<and> GetString (vp (initConfig ''/etc/lite-idp/lite-idp.yaml'' DeclaredFlags
                        (\<lambda>p. Content Map.empty) proc_start))
         (\<lambda>n. []) ''listen-address'' = ''127.0.0.1:9443''"
  using effective_value_by_precedence [OF parse_listen Lookup_listen_set _ yaml_supported,
          where fs = ex_fs and m = "[''listen-address'' \<mapsto> ''10.0.0.1:8443'']" and env = ex_env]
        effective_value_by_precedence [OF ParseFlags_no_args Lookup_listen_default _ yaml_supported,
          where fs = ex_fs and m = "[''listen-address'' \<mapsto> ''10.0.0.1:8443'']" and env = ex_env]
        effective_value_by_precedence [OF ParseFlags_no_args Lookup_listen_default _ yaml_supported,
          where fs = ex_fs and m = "[''listen-address'' \<mapsto> ''10.0.0.1:8443'']"
            and env = "\<lambda>n. []" and x = "''10.0.0.1:8443''"]
        effective_value_by_precedence [OF ParseFlags_no_args Lookup_listen_default _ yaml_supported,
          where fs = "\<lambda>p. Content Map.empty" and m = "Map.empty" and env = "\<lambda>n. []"]
        parse_listen
  by (simp add: ex_fs_def ex_env_def env_name_listen new_flag_def)

text \<open>
  Claim C2: for a setting with a declared flag that the command line does not supply, a
  value from the environment, and failing that from the configuration file, takes
  precedence over the flag's declared default; the flag's value is the effective value
  when the command line supplies it (the last value given).
\<close>

theorem unsupplied_flag_yields_to_env_and_file:
  assumes "ParseFlags DeclaredFlags args = Inr flags"
    and "Lookup DeclaredFlags k = Some d"
    and "cfgFile \<noteq> []"
    and "getConfigType (SetConfigFile cfgFile viper_New) \<in> set SupportedExts"
    and "fs cfgFile = Content m"
  shows "GetString (vp (initConfig cfgFile flags fs proc_start)) env k =
     (case map_of (rev args) k of
        Some x \<Rightarrow> x
      | None \<Rightarrow>
          if env (Replace (CHR ''-'', CHR ''_'') (ToUpper k)) \<noteq> []
          then env (Replace (CHR ''-'', CHR ''_'') (ToUpper k))
          else (case m k of Some x \<Rightarrow> x | None \<Rightarrow> flag_DefValue d))"
proof -
  have d: "\<not> flag_Changed d" "flag_Value d = flag_DefValue d"
    using DeclaredFlags_unchanged[OF assms(2)] by simp_all
  show ?thesis
  proof (cases "map_of (rev args) k")
    case None
    then have l: "Lookup flags k = Some d"
      using ParseFlags_Lookup[OF assms(1), of k] assms(2) by simp
    show ?thesis
      using GetString_loaded_file[where args = args and flags = flags and k = k and f = d and cfgFile = cfgFile
              and fs = fs and m = m and env = env] assms l d None
      by simp
  next
    case (Some x)
    then have l: "Lookup flags k = Some (d\<lparr>flag_Value := x, flag_Changed := True\<rparr>)"
      using ParseFlags_Lookup[OF assms(1), of k] assms(2) by simp
    show ?thesis
      using GetString_loaded_file[where args = args and flags = flags and k = k
              and f = "d\<lparr>flag_Value := x, flag_Changed := True\<rparr>" and cfgFile = cfgFile
              and fs = fs and m = m and env = env] assms l Some
      by simp
  qed
qed

theorem unsupplied_flag_yields_to_env_and_file_witness:
  "Lookup DeclaredFlags ''listen-address'' = Some (new_flag ''listen-address'' ''127.0.0.1:9443'')
   \<and> GetString (vp (initConfig ''/etc/lite-idp/lite-idp.yaml'' DeclaredFlags ex_fs proc_start))
         ex_env ''listen-address'' = ''192.168.0.1:9000''
   \<and> GetString (vp (initConfig ''/etc/lite-idp/lite-idp.yaml'' DeclaredFlags ex_fs proc_start))
         (\<lambda>n. []) ''listen-address'' = ''10.0.0.1:8443''
   \<and> GetString (vp (initConfig ''/etc/lite-idp/lite-idp.yaml'' flags_with_listen ex_fs proc_start))
         ex_env ''listen-address'' = ''0.0.0.0:443''"
  using unsupplied_flag_yields_to_env_and_file
          [OF ParseFlags_no_args Lookup_listen_default _ yaml_supported,
           of ex_fs "[''listen-address'' \<mapsto> ''10.0.0.1:8443'']" ex_env]
        unsupplied_flag_yields_to_env_and_file
          [OF ParseFlags_no_args Lookup_listen_default _ yaml_supported,
           of ex_fs "[''listen-address'' \<mapsto> ''10.0.0.1:8443'']" "\<lambda>n. []"]
        unsupplied_flag_yields_to_env_and_file
          [OF parse_listen Lookup_listen_default _ yaml_supported,
           of ex_fs "[''listen-address'' \<mapsto> ''10.0.0.1:8443'']" ex_env]
        Lookup_listen_default
  by (simp add: ex_fs_def ex_env_def env_name_listen new_flag_def)

text \<open>
  Claim C5: when no configuration file loads (each path \<open>initConfig\<close> may read is missing,
  unreadable or does not parse), \<open>initConfig\<close> prints the diagnostic
  \<open>failed to load config file: err\<close> and goes on; every setting with a declared flag is
  resolved from the command line, the environment and the declared default; and the
  process still exits with status 0 when the server is later stopped: the file's state
  never ends the process.
\<close>

theorem config_file_failure_not_fatal:
  assumes "ParseFlags DeclaredFlags args = Inr flags"
    and "\<forall>p\<in>set (config_candidates cfgFile). \<forall>m. fs p \<noteq> Content m"
  shows "(\<exists>err. stdout (initConfig cfgFile flags fs proc_start)
                 = [[S ''failed to load config file:'', E err]])
       \<and> (\<forall>k f. Lookup flags k = Some f \<longrightarrow>
            GetString (vp (initConfig cfgFile flags fs proc_start)) env k =
              (if flag_Changed f then flag_Value f
               else if env (Replace (CHR ''-'', CHR ''_'') (ToUpper k)) \<noteq> []
               then env (Replace (CHR ''-'', CHR ''_'') (ToUpper k))
               else flag_DefValue f))
       \<and> exit_code (Execute args env fs (Inr (h, tls)) (\<lambda>srv. ErrServerClosed)) = 0"
proof (intro conjI allI impI)
  obtain e where e: "snd (ReadInConfig fs (configured cfgFile flags viper_New)) = Some e"
    using initConfig_fails[OF assms(2)] by blast
  then show "\<exists>err. stdout (initConfig cfgFile flags fs proc_start)
                 = [[S ''failed to load config file:'', E err]]"
    using initConfig_stdout[of cfgFile flags fs proc_start]
    by (simp add: proc_start_def)
  have c: "config (vp (initConfig cfgFile flags fs proc_start)) = Map.empty"
    using ReadInConfig_error_config[OF e] configured_fields[of cfgFile flags viper_New]
    by (simp add: initConfig_vp proc_start_def viper_New_def)
  fix k f assume l: "Lookup flags k = Some f"
  show "GetString (vp (initConfig cfgFile flags fs proc_start)) env k =
              (if flag_Changed f then flag_Value f
               else if env (Replace (CHR ''-'', CHR ''_'') (ToUpper k)) \<noteq> []
               then env (Replace (CHR ''-'', CHR ''_'') (ToUpper k))
               else flag_DefValue f)"
    using GetString_bound_flag[OF parsed_flags_ok[OF assms(1)] l, of cfgFile fs proc_start env]
          parsed_flag_default[OF assms(1) l] c
    by simp
next
  show "exit_code (Execute args env fs (Inr (h, tls)) (\<lambda>srv. ErrServerClosed)) = 0"
    using Execute_parsed[OF assms(1), of env fs h tls "\<lambda>srv. ErrServerClosed"]
    by (simp add: Let_def)
qed

theorem config_file_failure_not_fatal_witness:
  "(\<exists>err. stdout (initConfig ''/etc/lite-idp/lite-idp.yaml'' DeclaredFlags (\<lambda>p. NoFile) proc_start)
            = [[S ''failed to load config file:'', E err]])
   \<and> (\<exists>err. stdout (initConfig ''/etc/lite-idp/lite-idp.yaml'' DeclaredFlags
                      (\<lambda>p. Malformed ''yaml: line 1: did not find expected key'') proc_start)
            = [[S ''failed to load config file:'', E err]])
   \<and> GetString (vp (initConfig ''/etc/lite-idp/lite-idp.yaml'' DeclaredFlags (\<lambda>p. NoFile) proc_start))
        ex_env ''listen-address'' = ''192.168.0.1:9000''
   \<and> GetString (vp (initConfig ''/etc/lite-idp/lite-idp.yaml'' DeclaredFlags (\<lambda>p. NoFile) proc_start))
        (\<lambda>n. []) ''listen-address'' = ''127.0.0.1:9443''
   \<and> exit_code (Execute [] (\<lambda>n. []) (\<lambda>p. NoFile) (Inr (\<lambda>w r. w, ())) (\<lambda>srv. ErrServerClosed)) = 0"
  using config_file_failure_not_fatal
          [OF ParseFlags_no_args,
           of "''/etc/lite-idp/lite-idp.yaml''" "\<lambda>p. NoFile" ex_env "\<lambda>w r. w" "()"]
        config_file_failure_not_fatal
          [OF ParseFlags_no_args,
           of "''/etc/lite-idp/lite-idp.yaml''" "\<lambda>p. NoFile" "\<lambda>n. []" "\<lambda>w r. w" "()"]
        config_file_failure_not_fatal
          [OF ParseFlags_no_args,
           of "''/etc/lite-idp/lite-idp.yaml''"
              "\<lambda>p. Malformed ''yaml: line 1: did not find expected key''" "\<lambda>n. []" "\<lambda>w r. w" "()"]
        Lookup_listen_default
  by (simp add: config_candidates_def ex_env_def env_name_listen new_flag_def)

text \<open>
  Claim C6: for every setting name (of ASCII bytes), the environment variable consulted
  for the setting is the name upper-cased with every \<open>-\<close> replaced by \<open>_\<close> (so it has the
  name's length and no \<open>-\<close>): when the command line does not supply the setting and that
  variable is set, the variable's value is the setting's value; and the setting's value
  depends on the environment through that variable only. For \<open>tls-certificate\<close> the
  variable is \<open>TLS_CERTIFICATE\<close>.
\<close>

theorem env_var_name_upper_underscore:
  assumes "ParseFlags DeclaredFlags args = Inr flags"
    and "is_ascii k"
  shows "envVarName (vp (initConfig cfgFile flags fs proc_start)) (mergeWithEnvPrefix (ToLower k))
           = Replace (CHR ''-'', CHR ''_'') (ToUpper k)
       \<and> length (Replace (CHR ''-'', CHR ''_'') (ToUpper k)) = length k
       \<and> CHR ''-'' \<notin> set (Replace (CHR ''-'', CHR ''_'') (ToUpper k))
       \<and> (ToLower k \<notin> fst ` set args
            \<and> env (Replace (CHR ''-'', CHR ''_'') (ToUpper k)) \<noteq> [] \<longrightarrow>
            GetString (vp (initConfig cfgFile flags fs proc_start)) env k
              = env (Replace (CHR ''-'', CHR ''_'') (ToUpper k)))
       \<and> (env (Replace (CHR ''-'', CHR ''_'') (ToUpper k))
            = env' (Replace (CHR ''-'', CHR ''_'') (ToUpper k)) \<longrightarrow>
            GetString (vp (initConfig cfgFile flags fs proc_start)) env k
              = GetString (vp (initConfig cfgFile flags fs proc_start)) env' k)
       \<and> Replace (CHR ''-'', CHR ''_'') (ToUpper ''tls-certificate'') = ''TLS_CERTIFICATE''"
proof -
  let ?v = "vp (initConfig cfgFile flags fs proc_start)"
  let ?n = "Replace (CHR ''-'', CHR ''_'') (ToUpper k)"
  have n: "envVarName ?v (mergeWithEnvPrefix (ToLower k)) = ?n"
    by (simp add: envVarName_def mergeWithEnvPrefix_def initConfig_fields ToUpper_ToLower)
  have ge: "getEnv ?v e (mergeWithEnvPrefix (ToLower k)) = e ?n" for e
    using n by (simp add: getEnv_def)
  have pf: "pflags ?v (ToLower k) = Lookup flags (ToLower k)"
    using assms(1) by (rule initConfig_pflags_parsed)
  have ae: "automaticEnvApplied ?v"
    by (simp add: initConfig_fields)
  have rd: "GetString ?v env k = env ?n"
    if a: "ToLower k \<notin> fst ` set args" and e: "env ?n \<noteq> []"
  proof -
    have "\<not> flag_Changed f" if "Lookup flags (ToLower k) = Some f" for f
      using unsupplied_flag_unchanged[OF assms(1) a that] .
    then show ?thesis
      using e
      by (cases "Lookup flags (ToLower k)")
         (simp_all add: GetString_def find_key_def ge pf ae)
  qed
  have ni: "GetString ?v env k = GetString ?v env' k" if "env ?n = env' ?n"
    unfolding GetString_def find_key_def ge that ..
  have d: "CHR ''-'' \<notin> set ?n"
    by (auto simp: Replace_def)
  have t: "Replace (CHR ''-'', CHR ''_'') (ToUpper ''tls-certificate'') = ''TLS_CERTIFICATE''"
    by (simp add: Replace_def ToUpper_def letters)
  have l: "length ?n = length k"
    by (simp add: Replace_def ToUpper_def)
  show ?thesis
    using n l d rd ni t by blast
qed

theorem env_var_name_upper_underscore_witness:
  "ParseFlags DeclaredFlags [] = Inr DeclaredFlags
   \<and> is_ascii ''tls-certificate''
   \<and> envVarName (vp (initConfig ''/etc/lite-idp/lite-idp.yaml'' DeclaredFlags (\<lambda>p. NoFile) proc_start))
        (mergeWithEnvPrefix (ToLower ''tls-certificate'')) = ''TLS_CERTIFICATE''
   \<and> GetString (vp (initConfig ''/etc/lite-idp/lite-idp.yaml'' DeclaredFlags (\<lambda>p. NoFile) proc_start))
        (\<lambda>n. if n = ''TLS_CERTIFICATE'' then ''/srv/cert.pem'' else []) ''tls-certificate''
       = ''/srv/cert.pem''"
  using env_var_name_upper_underscore [OF ParseFlags_no_args, where k = "''tls-certificate''"
           and cfgFile = "''/etc/lite-idp/lite-idp.yaml''" and fs = "\<lambda>p. NoFile"
           and env = "\<lambda>n. if n = ''TLS_CERTIFICATE'' then ''/srv/cert.pem'' else []"]
  by (simp add: is_ascii_def)

text \<open>
  Claim C8, as stated: the configuration-file path takes part in the same override as
  the other settings, so an environment variable \<open>CONFIG\<close> would decide which file is
  read when \<open>--config\<close> is not given. It does not: \<open>initConfig\<close> reads the variable bound to
  the flag.
\<close>

theorem config_path_env_override_counterexample:
  "\<not> (\<forall>env fs. env ''CONFIG'' \<noteq> [] \<longrightarrow>
        ConfigFileUsed (vp (fst (RootCmd_Execute [] env fs (Inr (\<lambda>w r. w, ()))
                                  (\<lambda>srv. ErrServerClosed) proc_start))) = env ''CONFIG'')"
proof
  assume a: "\<forall>env fs. env ''CONFIG'' \<noteq> [] \<longrightarrow>
        ConfigFileUsed (vp (fst (RootCmd_Execute [] env fs (Inr (\<lambda>w r. w, ()))
                                  (\<lambda>srv. ErrServerClosed) proc_start))) = env ''CONFIG''"
  let ?env = "\<lambda>n. if n = ''CONFIG'' then ''/tmp/other.yaml'' else []"
  let ?fs = "\<lambda>p. if p = ''/tmp/other.yaml'' then Content Map.empty else NoFile"
  have c: "cfgFile_of DeclaredFlags = ''/etc/lite-idp/lite-idp.yaml''"
    using cfgFile_of_parsed[OF ParseFlags_no_args] by simp
  have "ConfigFileUsed (vp (fst (RootCmd_Execute [] ?env ?fs (Inr (\<lambda>w r. w, ()))
                                  (\<lambda>srv. ErrServerClosed) proc_start))) = ''/etc/lite-idp/lite-idp.yaml''"
    using initConfig_configFile[of "''/etc/lite-idp/lite-idp.yaml''" DeclaredFlags ?fs proc_start]
    by (simp add: RootCmd_Execute_def c Let_def split: prod.splits)
  moreover have "ConfigFileUsed (vp (fst (RootCmd_Execute [] ?env ?fs (Inr (\<lambda>w r. w, ()))
                                  (\<lambda>srv. ErrServerClosed) proc_start))) = ?env ''CONFIG''"
    using a by simp
  ultimately show False
    by simp
qed

text \<open>
  Claim C8, amended: the configuration-file path is the value of \<open>--config\<close> on the command
  line, or its default \<open>/etc/lite-idp/lite-idp.yaml\<close>; that path (when not empty) is the
  file \<open>initConfig\<close> uses, whatever the environment and the files hold (with an empty path
  it is a file of the well-known location, or none). Every other declared flag that the
  command line does not supply is overridden by its environment variable, and failing
  that by the configuration file's value, before its declared default applies.
\<close>

theorem config_path_from_flag_only:
  assumes "ParseFlags DeclaredFlags args = Inr flags"
  shows "cfgFile_of flags =
           (case map_of (rev args) ''config'' of
              Some p \<Rightarrow> p | None \<Rightarrow> ''/etc/lite-idp/lite-idp.yaml'')
       \<and> ConfigFileUsed (vp (initConfig (cfgFile_of flags) flags fs proc_start))
           \<in> set ([] # config_candidates (cfgFile_of flags))
       \<and> (cfgFile_of flags \<noteq> [] \<longrightarrow>
            ConfigFileUsed (vp (initConfig (cfgFile_of flags) flags fs proc_start))
              = cfgFile_of flags)
       \<and> (\<forall>k d. Lookup LocalFlags k = Some d \<and> map_of (rev args) k = None \<longrightarrow>
            GetString (vp (initConfig (cfgFile_of flags) flags fs proc_start)) env k =
              (if env (Replace (CHR ''-'', CHR ''_'') (ToUpper k)) \<noteq> []
               then env (Replace (CHR ''-'', CHR ''_'') (ToUpper k))
               else case config (vp (initConfig (cfgFile_of flags) flags fs proc_start)) k of
                      Some x \<Rightarrow> x | None \<Rightarrow> flag_DefValue d))"
proof (intro conjI allI impI)
  show "cfgFile_of flags =
           (case map_of (rev args) ''config'' of
              Some p \<Rightarrow> p | None \<Rightarrow> ''/etc/lite-idp/lite-idp.yaml'')"
    using assms by (rule cfgFile_of_parsed)
  show "ConfigFileUsed (vp (initConfig (cfgFile_of flags) flags fs proc_start))
           \<in> set ([] # config_candidates (cfgFile_of flags))"
    by (rule initConfig_ConfigFileUsed)
  show "ConfigFileUsed (vp (initConfig (cfgFile_of flags) flags fs proc_start)) = cfgFile_of flags"
    if "cfgFile_of flags \<noteq> []"
    using that by (rule initConfig_configFile)
  fix k d assume a: "Lookup LocalFlags k = Some d \<and> map_of (rev args) k = None"
  then have "Lookup DeclaredFlags k = Some d"
    by (simp add: DeclaredFlags_def Lookup_append)
  then have l: "Lookup flags k = Some d" and d: "\<not> flag_Changed d" "flag_Value d = flag_DefValue d"
    using ParseFlags_Lookup[OF assms, of k] a DeclaredFlags_unchanged[of k d] by simp_all
  show "GetString (vp (initConfig (cfgFile_of flags) flags fs proc_start)) env k =
              (if env (Replace (CHR ''-'', CHR ''_'') (ToUpper k)) \<noteq> []
               then env (Replace (CHR ''-'', CHR ''_'') (ToUpper k))
               else case config (vp (initConfig (cfgFile_of flags) flags fs proc_start)) k of
                      Some x \<Rightarrow> x | None \<Rightarrow> flag_DefValue d)"
    using GetString_bound_flag[OF parsed_flags_ok[OF assms] l, of "cfgFile_of flags" fs proc_start env] d
    by (simp split: option.splits)
qed

theorem config_path_from_flag_only_witness:
  "cfgFile_of DeclaredFlags = ''/etc/lite-idp/lite-idp.yaml''
   \<and> ConfigFileUsed (vp (initConfig (cfgFile_of DeclaredFlags) DeclaredFlags ex_fs proc_start))
       = ''/etc/lite-idp/lite-idp.yaml''
   \<and> GetString (vp (initConfig (cfgFile_of DeclaredFlags) DeclaredFlags ex_fs proc_start))
        ex_env ''listen-address'' = ''192.168.0.1:9000''"
proof -
  note t = config_path_from_flag_only[where args = "[]" and flags = DeclaredFlags and fs = ex_fs and env = ex_env,
              OF ParseFlags_no_args]
  have a: "cfgFile_of DeclaredFlags = ''/etc/lite-idp/lite-idp.yaml''"
    using t by simp
  have b: "ConfigFileUsed (vp (initConfig (cfgFile_of DeclaredFlags) DeclaredFlags ex_fs proc_start))
             = cfgFile_of DeclaredFlags"
    using t a by simp
  have "GetString (vp (initConfig (cfgFile_of DeclaredFlags) DeclaredFlags ex_fs proc_start))
          ex_env ''listen-address'' =
        (if ex_env (Replace (CHR ''-'', CHR ''_'') (ToUpper ''listen-address'')) \<noteq> []
         then ex_env (Replace (CHR ''-'', CHR ''_'') (ToUpper ''listen-address''))
         else case config (vp (initConfig (cfgFile_of DeclaredFlags) DeclaredFlags ex_fs proc_start))
                     ''listen-address'' of
                Some x \<Rightarrow> x
              | None \<Rightarrow> flag_DefValue (new_flag ''listen-address'' ''127.0.0.1:9443''))"
    using t[THEN conjunct2, THEN conjunct2, THEN conjunct2, rule_format,
            of "''listen-address''" "new_flag ''listen-address'' ''127.0.0.1:9443''"]
          Lookup_listen_local
    by simp
  then have c: "GetString (vp (initConfig (cfgFile_of DeclaredFlags) DeclaredFlags ex_fs proc_start))
          ex_env ''listen-address'' = ''192.168.0.1:9000''"
    by (simp add: env_name_listen ex_env_def)
  show ?thesis
    using a b c by simp
qed

section \<open>The middleware stack\<close>

lemma Header_Values_Add:
  "Header_Values (Header_Add h k x) k' =
     (if k' = k then Header_Values h k @ [x] else Header_Values h k')"
  by (simp add: Header_Values_def Header_Add_def)

lemma hsts_unfold: "hsts h w r = h (w\<lparr>hdr := Header_Add (hdr w) STS STS_policy\<rparr>) r"
  by (simp add: hsts_def hstsHandler_ServeHTTP_def)

lemma keeps_header_WriteHeader: "keeps_header (\<lambda>w r. WriteHeader st w) k"
  by (simp add: keeps_header_def WriteHeader_def response_header_def response_def)

text \<open>
  Claim C4, as stated: for every request through the middleware, whatever handler it
  wraps, the response carries \<open>Strict-Transport-Security: max-age=63072000;
  includeSubDomains\<close>. This fails for a wrapped handler that deletes the header from the
  header map it is handed.
\<close>

theorem hsts_response_header_counterexample:
  "\<not> (\<forall>h r. STS_policy \<in> set (Header_Values (response_header (hsts h (new_exchange []) r)) STS))"
proof
  assume a: "\<forall>h r. STS_policy \<in> set (Header_Values (response_header (hsts h (new_exchange []) r)) STS)"
  have "STS_policy \<in> set (Header_Values (response_header
          (hsts (\<lambda>w r. w\<lparr>hdr := Header_Del (hdr w) STS\<rparr>) (new_exchange [])
             \<lparr>req_Method = ''GET'', req_Path = ''/''\<rparr>)) STS)"
    using a by blast
  then show False
    by (simp add: hsts_unfold new_exchange_def response_header_def response_def
          Header_Del_def Header_Values_def)
qed

text \<open>
  Claim C4, amended: for every request, response writer and wrapped handler, the
  middleware hands the wrapped handler the same request and the same response writer with
  the policy value appended to the \<open>Strict-Transport-Security\<close> values of its header map
  and nothing else changed (no condition, no state of its own); and the response carries
  the policy value, whatever its status, whenever the wrapped handler keeps the values of
  that header.
\<close>

theorem hsts_adds_header_then_delegates:
  "(\<exists>w'. hstsHandler_ServeHTTP h w r = h w' r
        \<and> hdr w' = (hdr w)(STS \<mapsto> Header_Values (hdr w) STS @ [STS_policy])
        \<and> sent w' = sent w \<and> body w' = body w \<and> access_log w' = access_log w)
   \<and> (keeps_header h STS \<longrightarrow>
        STS_policy \<in> set (Header_Values (response_header (hsts h (new_exchange lg) r)) STS))"
proof (intro conjI impI)
  show "\<exists>w'. hstsHandler_ServeHTTP h w r = h w' r
        \<and> hdr w' = (hdr w)(STS \<mapsto> Header_Values (hdr w) STS @ [STS_policy])
        \<and> sent w' = sent w \<and> body w' = body w \<and> access_log w' = access_log w"
    by (rule exI[of _ "w\<lparr>hdr := Header_Add (hdr w) STS STS_policy\<rparr>"])
       (simp add: hstsHandler_ServeHTTP_def Header_Add_def)
next
  assume k: "keeps_header h STS"
  let ?w = "(new_exchange lg)\<lparr>hdr := Header_Add (hdr (new_exchange lg)) STS STS_policy\<rparr>"
  have "sent ?w = None"
    by (simp add: new_exchange_def)
  moreover have "STS_policy \<in> set (Header_Values (hdr ?w) STS)"
    by (simp add: Header_Values_Add)
  ultimately have "STS_policy \<in> set (Header_Values (response_header (h ?w r)) STS)"
    using k unfolding keeps_header_def by blast
  then show "STS_policy \<in> set (Header_Values (response_header (hsts h (new_exchange lg) r)) STS)"
    by (simp add: hsts_unfold)
qed

text \<open>A wrapped handler that rejects the request with status 403: the header is there.\<close>

theorem hsts_adds_header_then_delegates_witness:
  "keeps_header (\<lambda>w r. WriteHeader 403 w) STS
   \<and> STS_policy \<in> set (Header_Values (response_header
        (hsts (\<lambda>w r. WriteHeader 403 w) (new_exchange [])
           \<lparr>req_Method = ''POST'', req_Path = ''/SAML2/SOAP/AttributeQuery''\<rparr>)) STS)
   \<and> response_status
        (hsts (\<lambda>w r. WriteHeader 403 w) (new_exchange [])
           \<lparr>req_Method = ''POST'', req_Path = ''/SAML2/SOAP/AttributeQuery''\<rparr>) = 403"
  using hsts_adds_header_then_delegates [of "\<lambda>w r. WriteHeader 403 w" "new_exchange []"
          "\<lparr>req_Method = ''POST'', req_Path = ''/SAML2/SOAP/AttributeQuery''\<rparr>" "[]"]
        keeps_header_WriteHeader [of 403 STS]
  by (simp add: hsts_unfold response_status_def response_def WriteHeader_def new_exchange_def)

text \<open>
  Claim C10, as stated: whenever the downstream handler also writes a
  \<open>Strict-Transport-Security\<close> header, the response carries several values for it. A
  downstream handler that writes it with \<open>Set\<close> leaves exactly one value, its own.
\<close>

theorem hsts_downstream_Set_counterexample:
  "Header_Values (response_header
      (hsts (\<lambda>w r. w\<lparr>hdr := Header_Set (hdr w) STS ''max-age=0''\<rparr>) (new_exchange [])
         \<lparr>req_Method = ''GET'', req_Path = ''/metadata''\<rparr>)) STS = [''max-age=0'']"
  by (simp add: hsts_unfold new_exchange_def response_header_def response_def
        Header_Set_def Header_Values_def)

text \<open>
  Claim C10, amended: the middleware appends its value (\<open>Add\<close>, not \<open>Set\<close>): the wrapped
  handler finds every value that was already in the header map, in the same order,
  followed by the policy value, and the values of every other header as they were. A
  downstream handler that also appends a \<open>Strict-Transport-Security\<close> value leaves the
  response with both values, the middleware's first; one that writes it with \<open>Set\<close>
  leaves only its own.
\<close>

theorem hsts_appends_value:
  "Header_Values (hdr (hsts (\<lambda>w r. w) w r)) k =
     (if k = STS then Header_Values (hdr w) STS @ [STS_policy] else Header_Values (hdr w) k)
   \<and> Header_Values (response_header
        (hsts (\<lambda>w r. w\<lparr>hdr := Header_Add (hdr w) STS x\<rparr>) (new_exchange lg) r)) STS
       = [STS_policy, x]
   \<and> Header_Values (response_header
        (hsts (\<lambda>w r. w\<lparr>hdr := Header_Set (hdr w) STS x\<rparr>) (new_exchange lg) r)) STS
       = [x]"
  by (simp add: hsts_unfold Header_Add_def new_exchange_def response_header_def
        response_def Header_Set_def Header_Values_def)

text \<open>
  Claim C7: the handler the server is given is the access-logging handler around the
  transport-security middleware around the application handler. So for every request
  and every application handler the security header is added first, then the
  application handler runs, then the request is logged; a request the application
  handler rejects (here with status 403) is logged with that status and its response
  carries the security header.
\<close>

theorem server_handler_order:
  "srv_Handler (new_server v env h tls) = CombinedLoggingHandler (hsts h)
   \<and> srv_Handler (new_server v env h tls) w r =
       (let w1 = h (w\<lparr>hdr := Header_Add (hdr w) STS STS_policy\<rparr>) r
        in w1\<lparr>access_log := access_log w1 @
              [\<lparr>acc_request = r, acc_status = map_option fst (sent w1),
                acc_size = length (body w1)\<rparr>]\<rparr>)
   \<and> acc_request (last (access_log (srv_Handler (new_server v env h tls) w r))) = r
   \<and> response_status
        (srv_Handler (new_server v env (\<lambda>w r. WriteHeader 403 w) tls) (new_exchange lg) r) = 403
   \<and> Header_Values (response_header
        (srv_Handler (new_server v env (\<lambda>w r. WriteHeader 403 w) tls) (new_exchange lg) r)) STS
       = [STS_policy]
   \<and> access_log
        (srv_Handler (new_server v env (\<lambda>w r. WriteHeader 403 w) tls) (new_exchange lg) r)
       = lg @ [\<lparr>acc_request = r, acc_status = Some 403, acc_size = 0\<rparr>]"
  by (simp add: new_server_def CombinedLoggingHandler_def hsts_unfold Let_def
        response_status_def response_header_def response_def WriteHeader_def
        new_exchange_def Header_Add_def Header_Values_def)

section \<open>Shutdown and exit status\<close>

text \<open>
  Claim C3: when the blocking serve call returns \<open>http.ErrServerClosed\<close>, \<open>RunE\<close> returns no
  error and the process exits with status 0, printing no error; when it returns any
  other error, \<open>RunE\<close> returns that error, \<open>Execute\<close> prints it and the process exits with
  status 1. (The command line is one that parses, so that \<open>RunE\<close> is reached.)
\<close>

theorem serve_result_decides_exit:
  assumes "ParseFlags DeclaredFlags args = Inr flags"
  shows "let s = initConfig (cfgFile_of flags) flags fs proc_start;
             err = listen (new_server (vp s) env h tls);
             res = Execute args env fs (Inr (h, tls)) listen
         in snd (RunE (vp s) env (Inr (h, tls)) listen)
              = (if err = ErrServerClosed then None else Some err)
          \<and> exit_code res = (if err = ErrServerClosed then 0 else 1)
          \<and> out_stdout res
              = (if err = ErrServerClosed then stdout s else stdout s @ [[E err]])"
  using Execute_parsed [OF assms, of env fs h tls listen]
  by (simp add: RunE_def Let_def)

theorem serve_result_decides_exit_witness:
  "ParseFlags DeclaredFlags [] = Inr DeclaredFlags
   \<and> exit_code (Execute [] (\<lambda>n. []) (\<lambda>p. NoFile) (Inr (\<lambda>w r. w, ()))
        (\<lambda>srv. ErrServerClosed)) = 0
   \<and> exit_code (Execute [] (\<lambda>n. []) (\<lambda>p. NoFile) (Inr (\<lambda>w r. w, ()))
        (\<lambda>srv. Err ''listen tcp 127.0.0.1:9443: bind: address already in use'')) = 1"
  using serve_result_decides_exit [where args = "[]" and flags = DeclaredFlags
          and fs = "\<lambda>p. NoFile" and env = "\<lambda>n. []" and h = "\<lambda>w r. w" and tls = "()"
          and listen = "\<lambda>srv. ErrServerClosed"]
        serve_result_decides_exit [where args = "[]" and flags = DeclaredFlags
          and fs = "\<lambda>p. NoFile" and env = "\<lambda>n. []" and h = "\<lambda>w r. w" and tls = "()"
          and listen = "\<lambda>srv. Err ''listen tcp 127.0.0.1:9443: bind: address already in use''"]
  by (simp add: Let_def)

end
